theory Spec2Isabelle
  imports Main "HOL-Library.Stream" "HOL-Library.AList" "HOL-Library.Sublist"
begin

section \<open>JavaScript values used by the client\<close>

text \<open>
  The client (index.js) stores strings, \<open>undefined\<close>, and, through property lookups on
  plain object literals, members inherited from \<open>Object.prototype\<close>. A value is one of
  these three; \<open>Inherited n\<close> stands for the member of \<open>Object.prototype\<close> named \<open>n\<close>
  (a function, or the prototype object itself for \<open>__proto__\<close>).
\<close>

datatype jsval = Undefined | Str string | Inherited string

fun truthy :: "jsval \<Rightarrow> bool" where
  "truthy Undefined = False"
| "truthy (Str s) = (s \<noteq> [])"
| "truthy (Inherited n) = True"

text \<open>
  The own property names of \<open>Object.prototype\<close> in the JavaScript runtime (the ECMAScript
  standard members and the Annex B accessors). Every plain object literal inherits them.
\<close>

definition object_prototype :: "string list" where
  "object_prototype =
     [''constructor'', ''__defineGetter__'', ''__defineSetter__'', ''hasOwnProperty'',
      ''__lookupGetter__'', ''__lookupSetter__'', ''isPrototypeOf'', ''propertyIsEnumerable'',
      ''toString'', ''valueOf'', ''__proto__'', ''toLocaleString'']"

text \<open>\<open>obj[key]\<close> on an object literal: own properties first, then the prototype.\<close>

definition get_prop :: "(string \<times> jsval) list \<Rightarrow> string \<Rightarrow> jsval" where
  "get_prop obj key =
     (case map_of obj key of
        Some v \<Rightarrow> v
      | None \<Rightarrow> if key \<in> set object_prototype then Inherited key else Undefined)"

text \<open>
  Error objects carry a name and a message; \<open>new Error(m)\<close> has the name \<open>Error\<close>.
  \<open>error_string\<close> is what a template literal makes of an error object.
\<close>

datatype error = JsError (err_name: string) (err_message: string)

definition new_Error :: "string \<Rightarrow> error" where
  "new_Error m = JsError ''Error'' m"

definition error_string :: "error \<Rightarrow> string" where
  "error_string e =
     (if err_name e = [] then err_message e
      else if err_message e = [] then err_name e
      else err_name e @ '': '' @ err_message e)"

section \<open>Regular expressions\<close>

text \<open>
  The patterns of index.js are sequences of literals and of one-or-more repetitions of a
  character class, greedy (\<open>+\<close>) or lazy (\<open>+?\<close>), with at most one capture group around a
  repetition. \<open>[^]\<close> is the class \<open>Any\<close> (any character); \<open>.\<close> is any character but a
  line terminator: line feed, carriage return, U+2028 and U+2029.

  Strings are lists of 8-bit characters. A header value is the list of its characters,
  since Node decodes header bytes as Latin-1; there \<open>.\<close> is the class \<open>Dot\<close>, and U+2028
  and U+2029 cannot occur. A body is the list of the UTF-8 bytes of its text; there \<open>.\<close>
  is the class \<open>DotUtf8\<close>, which also stops at the three bytes of U+2028 and of U+2029.
\<close>

datatype cclass = Dot | DotUtf8 | Any

datatype item = Lit string | Rep cclass bool bool

text \<open>\<open>stops_at cls s\<close>: the text \<open>s\<close> begins with a character outside the class.\<close>

fun stops_at :: "cclass \<Rightarrow> string \<Rightarrow> bool" where
  "stops_at Any s = False"
| "stops_at Dot s = (prefix [CHR 0x0A] s \<or> prefix [CHR 0x0D] s)"
| "stops_at DotUtf8 s =
     (prefix [CHR 0x0A] s \<or> prefix [CHR 0x0D] s \<or>
      prefix [CHR 0xE2, CHR 0x80, CHR 0xA8] s \<or> prefix [CHR 0xE2, CHR 0x80, CHR 0xA9] s)"

text \<open>The length of the longest run of characters of the class at the start of a string.\<close>

fun class_run :: "cclass \<Rightarrow> string \<Rightarrow> nat" where
  "class_run cls [] = 0"
| "class_run cls (c # cs) = (if stops_at cls (c # cs) then 0 else Suc (class_run cls cs))"

fun first_some :: "('a \<Rightarrow> 'b option) \<Rightarrow> 'a list \<Rightarrow> 'b option" where
  "first_some f [] = None"
| "first_some f (x # xs) = (case f x of Some y \<Rightarrow> Some y | None \<Rightarrow> first_some f xs)"

text \<open>
  Backtracking match of a pattern at the start of a string. The result is \<open>None\<close> when the
  pattern does not match there, and otherwise \<open>Some g\<close> with \<open>g\<close> the text of the capture
  group (\<open>None\<close> when the pattern has no group). A repetition \<open>Rep cls greedy captured\<close>
  tries its possible lengths from the longest down when greedy and from one up when lazy.
\<close>

fun match_here :: "item list \<Rightarrow> string \<Rightarrow> string option option" where
  "match_here [] s = Some None"
| "match_here (Lit l # r) s =
     (if prefix l s then match_here r (drop (length l) s) else None)"
| "match_here (Rep cls greedy captured # r) s =
     (let n = class_run cls s;
          ks = (if greedy then rev [1..<Suc n] else [1..<Suc n])
      in first_some
           (\<lambda>k. case match_here r (drop k s) of
                   None \<Rightarrow> None
                 | Some g \<Rightarrow> Some (if captured then Some (take k s) else g))
           ks)"

text \<open>\<open>String.prototype.match\<close> without the global flag: the leftmost match.\<close>

fun js_match :: "item list \<Rightarrow> string \<Rightarrow> string option option" where
  "js_match re [] = match_here re []"
| "js_match re (c # cs) =
     (case match_here re (c # cs) of Some g \<Rightarrow> Some g | None \<Rightarrow> js_match re cs)"

text \<open>The patterns, in the order they appear in index.js.\<close>

definition re_nochange :: "item list" where
  "re_nochange = [Lit ''<customStatus>[NOCNG]</customStatus>'']"

definition re_index :: "item list" where
  "re_index = [Lit ''<index>'', Rep Any False True, Lit ''</index>'']"

definition re_status :: "item list" where
  "re_status =
     [Lit ''<system>'', Rep Any True False, Lit ''<status>'', Rep Any True True,
      Lit ''</status>'', Rep Any True False, Lit ''</system>'']"

definition re_rejected :: "item list" where
  "re_rejected = [Lit ''NOT::'']"

definition re_lockout :: "item list" where
  "re_lockout = [Lit ''time left:'', Rep DotUtf8 True True]"

definition re_cookie :: "item list" where
  "re_cookie = [Rep Dot True True, Lit '';'']"

definition re_relogin :: "item list" where
  "re_relogin = [Lit ''[RELOGIN]'']"

section \<open>The client, its requests and the transport\<close>

text \<open>
  The fields of a \<open>PowerLink2\<close> instance. \<open>cookie\<close> and \<open>getStatusIndex\<close> are never
  assigned by the constructor, so they start out \<open>undefined\<close> (\<open>None\<close>); \<open>lastStatus\<close>
  holds whatever JavaScript value was stored last and starts out \<open>Undefined\<close>.
\<close>

record client =
  failSafe :: bool
  debug :: bool
  baseURL :: string
  username :: string
  password :: string
  timeout :: nat
  cookie :: "string option"
  getStatusIndex :: "string option"
  lastStatus :: jsval

record options =
  opt_host :: string
  opt_username :: string
  opt_password :: string
  opt_debug :: bool
  opt_timeout :: "nat option"

text \<open>The constructor; \<open>config.timeout || 2500\<close> takes 2500 for an absent or zero timeout.\<close>

definition PowerLink2 :: "options \<Rightarrow> client" where
  "PowerLink2 config =
     \<lparr> failSafe = False,
       debug = opt_debug config,
       baseURL = ''http://'' @ opt_host config,
       username = opt_username config,
       password = opt_password config,
       timeout = (case opt_timeout config of
                    None \<Rightarrow> 2500
                  | Some t \<Rightarrow> if t = 0 then 2500 else t),
       cookie = None,
       getStatusIndex = None,
       lastStatus = Undefined \<rparr>"

definition DISARMED :: string where "DISARMED = ''disarmed''"
definition ARMED_HOME :: string where "ARMED_HOME = ''home''"
definition ARMED_AWAY :: string where "ARMED_AWAY = ''away''"
definition EXIT_DELAY :: string where "EXIT_DELAY = ''exit delay''"
definition UNKNOWN :: string where "UNKNOWN = ''unknown''"

definition STATUSES :: "jsval list" where
  "STATUSES = [Str DISARMED, Str ARMED_HOME, Str ARMED_AWAY, Str EXIT_DELAY, Str UNKNOWN]"

text \<open>
  A configuration object handed to the \<open>request\<close> module. \<open>headers\<close> and \<open>timeout\<close> are
  absent (\<open>None\<close>) until somebody sets them.
\<close>

record request =
  req_url :: string
  req_method :: string
  req_form :: "(string \<times> jsval) list"
  req_headers :: "(string \<times> string) list option"
  req_timeout :: "nat option"

text \<open>
  What the transport hands to a request's callback: an error, or a response (of which
  the client reads only the \<open>set-cookie\<close> header, a list of strings when present) and
  a body.
\<close>

datatype response = Response (set_cookie: "string list option")

datatype reply = Failed error | Answered response string

text \<open>
  The world outside the client: the replies the transport will deliver, one per request
  in the order the requests are made; the requests made so far; the delays passed to
  \<open>setTimeout\<close> so far; and the lines written through \<open>self.log\<close>.
\<close>

record world =
  replies :: "reply stream"
  sent :: "request list"
  timers :: "nat list"
  logged :: "string list"

text \<open>
  Modelled from the spec: \<open>request\<close> is the HTTP transport (the npm module request, whose
  code is not among the sources). A call hands the configuration object to the transport
  and its callback receives the next reply.
\<close>

definition request :: "request \<Rightarrow> world \<Rightarrow> reply \<times> world" where
  "request config w =
     (shd (replies w), w\<lparr>replies := stl (replies w), sent := sent w @ [config]\<rparr>)"

definition setTimeout :: "nat \<Rightarrow> world \<Rightarrow> world" where
  "setTimeout ms w = w\<lparr>timers := timers w @ [ms]\<rparr>"

definition log :: "string \<Rightarrow> world \<Rightarrow> world" where
  "log line w = w\<lparr>logged := logged w @ [line]\<rparr>"

definition debugLog :: "client \<Rightarrow> string \<Rightarrow> world \<Rightarrow> world" where
  "debugLog self line w = (if debug self then log line w else w)"

text \<open>
  The outcome of an operation that reports through a callback: the callback is called
  with some arguments, or an exception escapes before it is called.
\<close>

datatype 'a outcome = Callback 'a | Thrown string

definition TypeError :: string where
  "TypeError = ''TypeError''"

section \<open>getAuthenticationCookie\<close>

definition login_request :: "client \<Rightarrow> request" where
  "login_request self =
     \<lparr> req_url = baseURL self @ ''/web/ajax/login.login.ajax.php'',
       req_method = ''POST'',
       req_form = [(''user'', Str (username self)), (''pass'', Str (password self))],
       req_headers = None,
       req_timeout = Some (timeout self) \<rparr>"

text \<open>The callback of the login request (index.js lines 162 to 193).\<close>

definition login_callback ::
  "reply \<Rightarrow> client \<Rightarrow> world \<Rightarrow> (error + string) outcome \<times> client \<times> world" where
  "login_callback r self w =
     (let w1 =
        (if debug self then
           log (''body: '' @ (case r of Failed e \<Rightarrow> ''undefined'' | Answered resp body \<Rightarrow> body))
          (log (''response: '' @ (case r of Failed e \<Rightarrow> ''undefined''
                                    | Answered resp body \<Rightarrow> ''[object Object]''))
          (log (''error: '' @ (case r of Failed e \<Rightarrow> error_string e
                                 | Answered resp body \<Rightarrow> ''null''))
          (log ''Response from getAuthenticationCookie HTTP call:'' w)))
         else w)
      in case r of
           Failed e \<Rightarrow> (Callback (Inl e), self, w1)
         | Answered resp body \<Rightarrow>
             if js_match re_rejected body \<noteq> None then
               (let errorReason =
                  (case js_match re_lockout body of
                     Some (Some t) \<Rightarrow>
                       ''Locked out for '' @ t @
                       ''. Ensure username and password are correct, and restart Homebridge once the lockout time has elapsed.''
                   | _ \<Rightarrow> ''Invalid PowerLink2 username or password provided'')
                in (Callback (Inl (new_Error errorReason)),
                    self\<lparr>failSafe := True\<rparr>,
                    log errorReason w1))
             else
               (case set_cookie resp of
                  None \<Rightarrow> (Thrown TypeError, self, w1)
                | Some [] \<Rightarrow> (Thrown TypeError, self, w1)
                | Some (h # hs) \<Rightarrow>
                    (case js_match re_cookie h of
                       Some (Some c) \<Rightarrow>
                         (Callback (Inr c),
                          self\<lparr>cookie := Some c\<rparr>,
                          debugLog self (''Got authentication cookie: '' @ c) w1)
                     | _ \<Rightarrow> (Thrown TypeError, self, w1))))"

definition getAuthenticationCookie ::
  "client \<Rightarrow> world \<Rightarrow> (error + string) outcome \<times> client \<times> world" where
  "getAuthenticationCookie self w =
     (if failSafe self then
        (Callback (Inl (new_Error ''A previous authentication attempt failed; not continuing.'')),
         self, w)
      else case cookie self of
             Some c \<Rightarrow> (Callback (Inr c), self, w)
           | None \<Rightarrow>
               (case request (login_request self) w of
                  (r, w1) \<Rightarrow> login_callback r self w1))"

section \<open>authenticatedRequest\<close>

text \<open>
  Modelled from the spec: \<open>oneConcurrent\<close> belongs to the npm package one-concurrent, whose
  code is not among the sources. It is the request serializer of the specification: at
  most one authentication attempt is in flight at a time and each caller receives the
  attempt's outcome. The operations of this model run one after the other, so the task is
  run and its outcome handed on.
\<close>

definition oneConcurrent :: "(client \<Rightarrow> world \<Rightarrow> 'r) \<Rightarrow> client \<Rightarrow> world \<Rightarrow> 'r" where
  "oneConcurrent task self w = task self w"

text \<open>
  Lines 216 and 217: the caller's headers, an empty object if there are none, with the
  cookie put in.
\<close>

definition with_cookie :: "string \<Rightarrow> request \<Rightarrow> request" where
  "with_cookie c config =
     config\<lparr>req_headers :=
       Some (AList.update ''Cookie'' c (case req_headers config of None \<Rightarrow> [] | Some h \<Rightarrow> h))\<rparr>"

definition is_stale :: "string \<Rightarrow> bool" where
  "is_stale body = (body = [] \<or> js_match re_relogin body \<noteq> None)"

text \<open>
  One run of the body of \<open>authenticatedRequest\<close> (index.js lines 203 to 243), up to the
  point where it either finishes (\<open>Inl\<close>: the callback is called, or an exception escapes)
  or calls itself again (\<open>Inr\<close>, with the arguments and state of that call).

  Line 219 reads \<open>self.config.timeout\<close>. The constructor never assigns \<open>self.config\<close>, so
  when \<open>config.timeout\<close> is absent or zero the right operand of \<open>||\<close> is evaluated and
  the property read on \<open>undefined\<close> throws a TypeError.
\<close>

definition authenticatedRequest_body ::
  "request \<times> client \<times> world \<Rightarrow>
     ((error + response \<times> string) outcome \<times> client \<times> world) + (request \<times> client \<times> world)" where
  "authenticatedRequest_body a =
     (case a of (config, self, w) \<Rightarrow>
        (case oneConcurrent getAuthenticationCookie self w of
           (Thrown x, self1, w1) \<Rightarrow> Inl (Thrown x, self1, w1)
         | (Callback (Inl e), self1, w1) \<Rightarrow>
             Inl (Callback (Inl (new_Error (''Failed to get authentication cookie: '' @ error_string e))),
                  self1, w1)
         | (Callback (Inr c), self1, w1) \<Rightarrow>
             (let config1 = with_cookie c config
              in case req_timeout config1 of
                   None \<Rightarrow> Inl (Thrown TypeError, self1, w1)
                 | Some t \<Rightarrow>
                     if t = 0 then Inl (Thrown TypeError, self1, w1)
                     else
                       (case request config1 w1 of
                          (Failed e, w2) \<Rightarrow> Inl (Callback (Inl e), self1, w2)
                        | (Answered resp body, w2) \<Rightarrow>
                            if is_stale body then
                              Inr (config1,
                                   self1\<lparr>cookie := None\<rparr>,
                                   setTimeout (3 * 1000)
                                     (debugLog self1
                                        (''Our cookie probably isn'' @ [CHR 0x27] @
                                         ''t valid anymore - let'' @ [CHR 0x27] @
                                         ''s get another one'') w2))
                            else Inl (Callback (Inr (resp, body)), self1, w2)))))"

text \<open>
  The recursion has no bound in the source: it goes on for as long as the panel answers
  with stale-session bodies. \<open>None\<close> is the run that never reaches the callback.
\<close>

partial_function (option) authenticatedRequest ::
  "request \<times> client \<times> world \<Rightarrow> ((error + response \<times> string) outcome \<times> client \<times> world) option" where
  "authenticatedRequest a =
     (case authenticatedRequest_body a of
        Inl done \<Rightarrow> Some done
      | Inr again \<Rightarrow> authenticatedRequest again)"

section \<open>getStatus\<close>

definition getStatus_request :: "client \<Rightarrow> request" where
  "getStatus_request self =
     \<lparr> req_url = baseURL self @ ''/web/ajax/alarm.chkstatus.ajax.php'',
       req_method = ''POST'',
       req_form =
         [(''curindex'',
           (case getStatusIndex self of
              None \<Rightarrow> Str ''0''
            | Some i \<Rightarrow> if i = [] then Str ''0'' else Str i)),
          (''sesusername'', Str (username self)),
          (''sesusermanager'', Str ''1'')],
       req_headers = None,
       req_timeout = None \<rparr>"

definition statusStringToStatus :: "(string \<times> jsval) list" where
  "statusStringToStatus =
     [(''Ready'', Str DISARMED),
      (''NotReady'', Str DISARMED),
      (''Exit Delay'', Str EXIT_DELAY),
      (''HOME'', Str ARMED_HOME),
      (''AWAY'', Str ARMED_AWAY)]"

text \<open>
  The callback that \<open>getStatus\<close> passes to \<open>authenticatedRequest\<close> (index.js lines 52 to
  93). The message of line 67 contains an en dash, given here by its UTF-8 bytes.
\<close>

definition getStatus_callback ::
  "error + response \<times> string \<Rightarrow> client \<Rightarrow> world \<Rightarrow> (error + jsval) outcome \<times> client \<times> world" where
  "getStatus_callback r self w =
     (case r of
        Inl e \<Rightarrow>
          (Callback (Inl (new_Error (''Error getting raw status: '' @ error_string e))), self, w)
      | Inr (resp, body) \<Rightarrow>
          (let w1 =
             (if debug self then
                log (''body: '' @ body)
               (log ''response: [object Object]''
               (log ''Response from getRawState HTTP call:'' w))
              else w)
           in if js_match re_nochange body \<noteq> None then
                (Callback (Inr (lastStatus self)), self,
                 log (''Status hasn'' @ [CHR 0x27] @ ''t changed'' @ [CHR 0xE2, CHR 0x80, CHR 0x93] @
                      '' returning last status'') w1)
              else
                (case (case js_match re_index body of
                         Some (Some i) \<Rightarrow>
                           (self\<lparr>getStatusIndex := Some i\<rparr>,
                            debugLog self (''getStatusIndex: '' @ i) w1)
                       | _ \<Rightarrow> (self, w1)) of
                   (self1, w2) \<Rightarrow>
                     (case js_match re_status body of
                        Some (Some statusString) \<Rightarrow>
                          (let found = get_prop statusStringToStatus statusString;
                               status = (if truthy found then found else Str UNKNOWN)
                           in (Callback (Inr status), self1\<lparr>lastStatus := status\<rparr>, w2))
                      | _ \<Rightarrow> (Thrown TypeError, self1, w2)))))"

definition getStatus ::
  "client \<times> world \<Rightarrow> ((error + jsval) outcome \<times> client \<times> world) option" where
  "getStatus a =
     (case a of (self, w) \<Rightarrow>
        (case authenticatedRequest (getStatus_request self, self, w) of
           None \<Rightarrow> None
         | Some (Thrown x, self1, w1) \<Rightarrow> Some (Thrown x, self1, w1)
         | Some (Callback r, self1, w1) \<Rightarrow> Some (getStatus_callback r self1 w1)))"

section \<open>setStatus\<close>

definition stringMap :: "(string \<times> jsval) list" where
  "stringMap =
     [(DISARMED, Str ''Disarm''), (ARMED_HOME, Str ''ArmHome''), (ARMED_AWAY, Str ''ArmAway'')]"

definition setStatus_request :: "client \<Rightarrow> jsval \<Rightarrow> request" where
  "setStatus_request self statusString =
     \<lparr> req_url = baseURL self @ ''/web/ajax/security.main.status.ajax.php'',
       req_method = ''POST'',
       req_form = [(''set'', statusString)],
       req_headers = None,
       req_timeout = None \<rparr>"

text \<open>The callback that \<open>setStatus\<close> passes on (index.js lines 124 to 129).\<close>

definition setStatus_callback ::
  "error + response \<times> string \<Rightarrow> client \<Rightarrow> world \<Rightarrow> error option outcome \<times> client \<times> world" where
  "setStatus_callback r self w =
     (Callback (case r of Inl e \<Rightarrow> Some e | Inr x \<Rightarrow> None),
      self,
      debugLog self
        (''Got setStatus HTTP response body: '' @
         (case r of Inl e \<Rightarrow> ''undefined'' | Inr (resp, body) \<Rightarrow> body)) w)"

definition setStatus ::
  "string \<Rightarrow> client \<times> world \<Rightarrow> (error option outcome \<times> client \<times> world) option" where
  "setStatus status a =
     (case a of (self, w) \<Rightarrow>
        (let statusString = get_prop stringMap status
         in if statusString = Undefined then
              Some (Callback (Some (new_Error (''Cannot set status to: '' @ status))), self, w)
            else
              (case authenticatedRequest (setStatus_request self statusString, self, w) of
                 None \<Rightarrow> None
               | Some (Thrown x, self1, w1) \<Rightarrow> Some (Thrown x, self1, w1)
               | Some (Callback r, self1, w1) \<Rightarrow> Some (setStatus_callback r self1 w1))))"

section \<open>Notions used in the statements\<close>

text \<open>
  The lookup table of the specification, as a function on raw status strings: the
  statuses it names for the five known strings and \<open>UNKNOWN\<close> for every other string.
\<close>

definition spec_status :: "string \<Rightarrow> string" where
  "spec_status x =
     (if x = ''Ready'' \<or> x = ''NotReady'' then DISARMED
      else if x = ''Exit Delay'' then EXIT_DELAY
      else if x = ''HOME'' then ARMED_HOME
      else if x = ''AWAY'' then ARMED_AWAY
      else UNKNOWN)"

text \<open>
  The specification's reading of the cookie pattern: the header value up to its first
  semicolon.
\<close>

definition up_to_first_semicolon :: "string \<Rightarrow> string" where
  "up_to_first_semicolon h = takeWhile (\<lambda>c. c \<noteq> CHR '';'') h"

text \<open>The world in which one run of the body of \<open>authenticatedRequest\<close> ends.\<close>

definition world_after ::
  "('a \<times> client \<times> world) + (request \<times> client \<times> world) \<Rightarrow> world" where
  "world_after r = (case r of Inl (out, self, w) \<Rightarrow> w | Inr (config, self, w) \<Rightarrow> w)"

text \<open>A client that is not blocked and holds the session cookie \<open>c\<close>.\<close>

definition holding :: "string \<Rightarrow> client \<Rightarrow> client" where
  "holding c self = self\<lparr>failSafe := False, cookie := Some c\<rparr>"

section \<open>Example inputs\<close>

definition example_options :: options where
  "example_options =
     \<lparr> opt_host = ''10.0.1.200'', opt_username = ''Admin'', opt_password = ''Admin123'',
       opt_debug = False, opt_timeout = None \<rparr>"

definition world_of :: "reply stream \<Rightarrow> world" where
  "world_of rs = \<lparr> replies = rs, sent = [], timers = [], logged = [] \<rparr>"

definition rejection :: reply where
  "rejection = Answered (Response None) ''NOT::time left:15 minutes''"

definition login_ok :: reply where
  "login_ok = Answered (Response (Some [''PowerLink=abc; path=/''])) ''[OK]''"

definition status_ready :: reply where
  "status_ready =
     Answered (Response None)
       ''<reply><index>7</index><system> <status>Ready</status> </system></reply>''"

definition status_nochange :: reply where
  "status_nochange =
     Answered (Response None)
       ''<reply><index>7</index><customStatus>[NOCNG]</customStatus></reply>''"

definition fresh :: client where
  "fresh = PowerLink2 example_options"

definition login_no_attributes :: reply where
  "login_no_attributes = Answered (Response (Some [''PowerLink=abc''])) ''[OK]''"

definition login_two_attributes :: reply where
  "login_two_attributes =
     Answered (Response (Some [''PowerLink=abc; path=/; HttpOnly''])) ''[OK]''"

definition stale_reply :: reply where
  "stale_reply = Answered (Response None) ''[RELOGIN]''"

definition login_ok_again :: reply where
  "login_ok_again = Answered (Response (Some [''PowerLink=xyz; path=/''])) ''[OK]''"

definition status_request_with_timeout :: request where
  "status_request_with_timeout = (getStatus_request fresh)\<lparr>req_timeout := Some 2500\<rparr>"

section \<open>The fail-safe flag\<close>

lemma getAuthenticationCookie_failSafe:
  "failSafe self \<Longrightarrow>
   getAuthenticationCookie self w =
     (Callback (Inl (new_Error ''A previous authentication attempt failed; not continuing.'')), self, w)"
  by (simp add: getAuthenticationCookie_def)

lemma authenticatedRequest_failSafe:
  assumes "failSafe self"
  shows "authenticatedRequest (config, self, w) =
     Some (Callback (Inl (new_Error (''Failed to get authentication cookie: '' @
             error_string (new_Error ''A previous authentication attempt failed; not continuing.'')))),
           self, w)"
  by (subst authenticatedRequest.simps)
     (simp add: authenticatedRequest_body_def oneConcurrent_def
        getAuthenticationCookie_failSafe [OF assms])

lemma login_rejected:
  assumes "js_match re_rejected body \<noteq> None"
  shows "\<exists>e w'. login_callback (Answered resp body) self w =
           (Callback (Inl e), self\<lparr>failSafe := True\<rparr>, w')"
  using assms by (simp add: login_callback_def Let_def)

text \<open>
  C1. A login that the panel rejects (a body matching \<open>NOT::\<close>) sets the fail-safe flag.
  From any state in which the flag is set, \<open>getAuthenticationCookie\<close>,
  \<open>authenticatedRequest\<close>, \<open>getStatus\<close> and \<open>setStatus\<close> all call back with an error, leave
  the client as it is (so the flag stays set, whatever is called next) and hand no
  request to the transport.
\<close>

theorem failSafe_is_permanent:
  "(\<not> failSafe self \<and> cookie self = None \<and> shd (replies w) = Answered resp body \<and>
      js_match re_rejected body \<noteq> None \<longrightarrow>
      (\<exists>e w'. getAuthenticationCookie self w = (Callback (Inl e), self\<lparr>failSafe := True\<rparr>, w'))) \<and>
   (failSafe self \<longrightarrow>
      (\<exists>e. getAuthenticationCookie self w = (Callback (Inl e), self, w)) \<and>
      (\<exists>e. authenticatedRequest (config, self, w) = Some (Callback (Inl e), self, w)) \<and>
      (\<exists>e. getStatus (self, w) = Some (Callback (Inl e), self, w)) \<and>
      (\<exists>e w'. setStatus status (self, w) = Some (Callback (Some e), self, w') \<and>
         sent w' = sent w \<and> replies w' = replies w \<and> timers w' = timers w))"
proof (intro conjI impI)
  assume a: "\<not> failSafe self \<and> cookie self = None \<and> shd (replies w) = Answered resp body \<and>
      js_match re_rejected body \<noteq> None"
  then have "getAuthenticationCookie self w =
      login_callback (Answered resp body) self
        (w\<lparr>replies := stl (replies w), sent := sent w @ [login_request self]\<rparr>)"
    by (simp add: getAuthenticationCookie_def request_def)
  with login_rejected [of body resp self] a
  show "\<exists>e w'. getAuthenticationCookie self w = (Callback (Inl e), self\<lparr>failSafe := True\<rparr>, w')"
    by simp
next
  assume f: "failSafe self"
  show "\<exists>e. getAuthenticationCookie self w = (Callback (Inl e), self, w)"
    by (simp add: getAuthenticationCookie_failSafe [OF f])
  show "\<exists>e. authenticatedRequest (config, self, w) = Some (Callback (Inl e), self, w)"
    by (simp add: authenticatedRequest_failSafe [OF f])
  show "\<exists>e. getStatus (self, w) = Some (Callback (Inl e), self, w)"
    by (simp add: getStatus_def authenticatedRequest_failSafe [OF f] getStatus_callback_def)
  show "\<exists>e w'. setStatus status (self, w) = Some (Callback (Some e), self, w') \<and>
         sent w' = sent w \<and> replies w' = replies w \<and> timers w' = timers w"
    by (simp add: setStatus_def Let_def authenticatedRequest_failSafe [OF f] setStatus_callback_def
          debugLog_def log_def)
qed

text \<open>
  A fresh client whose first login is rejected, and the same client afterwards: the
  second attempt is refused although the panel would now answer with a session cookie.
\<close>

theorem failSafe_is_permanent_witness:
  "(\<not> failSafe (PowerLink2 example_options) \<and>
    cookie (PowerLink2 example_options) = None \<and>
    shd (replies (world_of (sconst rejection))) = Answered (Response None) ''NOT::time left:15 minutes'' \<and>
    js_match re_rejected ''NOT::time left:15 minutes'' \<noteq> None \<and>
    (\<exists>e w'. getAuthenticationCookie (PowerLink2 example_options) (world_of (sconst rejection)) =
       (Callback (Inl e), (PowerLink2 example_options)\<lparr>failSafe := True\<rparr>, w'))) \<and>
   (failSafe ((PowerLink2 example_options)\<lparr>failSafe := True\<rparr>) \<and>
    (\<exists>e. getStatus ((PowerLink2 example_options)\<lparr>failSafe := True\<rparr>,
            world_of (sconst (Answered (Response (Some [''PowerLink=abc; path=/''])) ''ok''))) =
       Some (Callback (Inl e), (PowerLink2 example_options)\<lparr>failSafe := True\<rparr>,
             world_of (sconst (Answered (Response (Some [''PowerLink=abc; path=/''])) ''ok'')))))"
proof -
  have h1: "\<not> failSafe (PowerLink2 example_options) \<and>
    cookie (PowerLink2 example_options) = None \<and>
    shd (replies (world_of (sconst rejection))) = Answered (Response None) ''NOT::time left:15 minutes'' \<and>
    js_match re_rejected ''NOT::time left:15 minutes'' \<noteq> None"
    by (simp add: PowerLink2_def world_of_def rejection_def re_rejected_def)
  have h2: "failSafe ((PowerLink2 example_options)\<lparr>failSafe := True\<rparr>)"
    by simp
  from h1 h2
    failSafe_is_permanent [of "PowerLink2 example_options" "world_of (sconst rejection)"
      "Response None" "''NOT::time left:15 minutes''"]
    failSafe_is_permanent [of "(PowerLink2 example_options)\<lparr>failSafe := True\<rparr>"
      "world_of (sconst (Answered (Response (Some [''PowerLink=abc; path=/''])) ''ok''))"]
  show ?thesis by blast
qed

lemma fresh_fields:
  "failSafe fresh = False" "cookie fresh = None" "debug fresh = False"
  "getStatusIndex fresh = None" "lastStatus fresh = Undefined" "timeout fresh = 2500"
  by (simp_all add: fresh_def PowerLink2_def example_options_def)

lemma match_cookie_example:
  "js_match re_cookie ''PowerLink=abc; path=/'' = Some (Some ''PowerLink=abc'')"
  by (simp add: re_cookie_def)

lemma login_ok_not_rejected: "js_match re_rejected ''[OK]'' = None"
  by (simp add: re_rejected_def)

lemma login_fresh:
  "getAuthenticationCookie fresh (world_of (login_ok ## rs)) =
     (Callback (Inr ''PowerLink=abc''), fresh\<lparr>cookie := Some ''PowerLink=abc''\<rparr>,
      (world_of rs)\<lparr>sent := [login_request fresh]\<rparr>)"
  by (simp add: getAuthenticationCookie_def fresh_fields request_def world_of_def login_ok_def
        login_callback_def debugLog_def match_cookie_example login_ok_not_rejected
        del: js_match.simps)

section \<open>Login: transport failures\<close>

lemma login_callback_sent:
  "login_callback r self w = (out, self', w') \<Longrightarrow>
   sent w' = sent w \<and> replies w' = replies w \<and> timers w' = timers w"
  by (auto simp: login_callback_def Let_def log_def debugLog_def
        split: reply.splits if_splits option.splits list.splits)

lemma getAuthenticationCookie_login:
  assumes "\<not> failSafe self" and "cookie self = None"
  shows "getAuthenticationCookie self w =
           login_callback (shd (replies w)) self
             (w\<lparr>replies := stl (replies w), sent := sent w @ [login_request self]\<rparr>)"
  using assms by (simp add: getAuthenticationCookie_def request_def)

text \<open>
  C9. When the login request fails in the transport, \<open>getAuthenticationCookie\<close> calls back
  with that very error and leaves the client as it was: no cookie, fail-safe not set. The
  next call therefore sends the login request again.
\<close>

theorem transport_failure_is_retryable:
  assumes "\<not> failSafe self" and "cookie self = None" and "shd (replies w) = Failed e"
  shows "\<exists>w'. getAuthenticationCookie self w = (Callback (Inl e), self, w') \<and>
           sent w' = sent w @ [login_request self] \<and>
           sent (snd (snd (getAuthenticationCookie self w'))) = sent w' @ [login_request self]"
proof -
  let ?w1 = "w\<lparr>replies := stl (replies w), sent := sent w @ [login_request self]\<rparr>"
  obtain w' where cb: "login_callback (Failed e) self ?w1 = (Callback (Inl e), self, w')"
    by (simp add: login_callback_def Let_def)
  have first: "getAuthenticationCookie self w = (Callback (Inl e), self, w')"
    using getAuthenticationCookie_login [OF assms(1,2), of w] assms(3) cb by simp
  have s': "sent w' = sent w @ [login_request self]"
    using login_callback_sent [OF cb] by simp
  obtain out self2 w2 where r: "getAuthenticationCookie self w' = (out, self2, w2)"
    by (cases "getAuthenticationCookie self w'") blast
  have again: "sent (snd (snd (getAuthenticationCookie self w'))) = sent w' @ [login_request self]"
    using r getAuthenticationCookie_login [OF assms(1,2), of w']
      login_callback_sent [of "shd (replies w')" self
        "w'\<lparr>replies := stl (replies w'), sent := sent w' @ [login_request self]\<rparr>" out self2 w2]
    by simp
  from first s' again show ?thesis by blast
qed

theorem transport_failure_is_retryable_witness:
  "\<not> failSafe fresh \<and> cookie fresh = None \<and>
   shd (replies (world_of (Failed (new_Error ''ETIMEDOUT'') ## sconst login_ok))) =
     Failed (new_Error ''ETIMEDOUT'') \<and>
   (\<exists>w'. getAuthenticationCookie fresh (world_of (Failed (new_Error ''ETIMEDOUT'') ## sconst login_ok)) =
            (Callback (Inl (new_Error ''ETIMEDOUT'')), fresh, w') \<and>
          sent w' = sent (world_of (Failed (new_Error ''ETIMEDOUT'') ## sconst login_ok)) @
                    [login_request fresh] \<and>
          sent (snd (snd (getAuthenticationCookie fresh w'))) = sent w' @ [login_request fresh])"
proof -
  have h: "\<not> failSafe fresh" "cookie fresh = None"
    "shd (replies (world_of (Failed (new_Error ''ETIMEDOUT'') ## sconst login_ok))) =
       Failed (new_Error ''ETIMEDOUT'')"
    by (simp_all add: fresh_fields world_of_def)
  from h transport_failure_is_retryable [OF h] show ?thesis by blast
qed

section \<open>The timeout of an authenticated request\<close>

lemma authenticatedRequest_without_timeout:
  assumes "getAuthenticationCookie self w = (Callback (Inr c), self1, w1)"
    and "req_timeout config = None \<or> req_timeout config = Some 0"
  shows "authenticatedRequest (config, self, w) = Some (Thrown TypeError, self1, w1)"
  using assms
  by (subst authenticatedRequest.simps)
     (auto simp: authenticatedRequest_body_def oneConcurrent_def with_cookie_def)

text \<open>
  C6. The request that \<open>getStatus\<close> builds names no timeout. On a fresh client whose login
  the panel accepts, \<open>authenticatedRequest\<close> does not apply the configured 2500 ms: the
  read of \<open>self.config.timeout\<close> throws, the only request handed to the transport is the
  login request, and the callback is never called.
\<close>

theorem configured_timeout_throws:
  "req_timeout (getStatus_request fresh) = None \<and> timeout fresh = 2500 \<and>
   authenticatedRequest (getStatus_request fresh, fresh, world_of (login_ok ## sconst status_ready)) =
     Some (Thrown TypeError, fresh\<lparr>cookie := Some ''PowerLink=abc''\<rparr>,
           (world_of (sconst status_ready))\<lparr>sent := [login_request fresh]\<rparr>)"
  by (simp add: authenticatedRequest_without_timeout [OF login_fresh] getStatus_request_def
        fresh_fields)

section \<open>Facts about the patterns\<close>

lemma first_some_SomeD:
  "first_some f xs = Some y \<Longrightarrow> \<exists>x \<in> set xs. f x = Some y"
  by (induction xs) (auto split: option.splits)

lemma js_match_SomeD:
  "js_match re s = Some g \<Longrightarrow> \<exists>k. match_here re (drop k s) = Some g"
proof (induction s)
  case Nil
  then show ?case by simp
next
  case (Cons c cs)
  show ?case
  proof (cases "match_here re (c # cs)")
    case None
    with Cons obtain k where "match_here re (drop k cs) = Some g" by auto
    then have "match_here re (drop (Suc k) (c # cs)) = Some g" by simp
    then show ?thesis by blast
  next
    case (Some a)
    with Cons.prems have "match_here re (drop 0 (c # cs)) = Some g" by simp
    then show ?thesis by blast
  qed
qed

lemma first_some_rev_upt:
  "1 \<le> m \<Longrightarrow> m \<le> n \<Longrightarrow> (\<forall>k. m < k \<and> k \<le> n \<longrightarrow> f k = None) \<Longrightarrow> f m = Some y \<Longrightarrow>
   first_some f (rev [1..<Suc n]) = Some y"
proof (induction n)
  case 0
  then show ?case by simp
next
  case (Suc n)
  show ?case
  proof (cases "m = Suc n")
    case True
    with Suc.prems show ?thesis by simp
  next
    case False
    with Suc.prems have "m \<le> n" and "f (Suc n) = None" by auto
    with Suc show ?thesis by simp
  qed
qed

lemma match_here_semicolon:
  "match_here [Lit '';''] t = (if prefix '';'' t then Some None else None)"
  by simp

lemma class_run_le: "class_run cls s \<le> length s"
  by (induction s) auto

lemma class_run_Dot_append_ge:
  assumes "CHR 0x0A \<notin> set p" and "CHR 0x0D \<notin> set p"
  shows "Suc (length p) \<le> class_run Dot (p @ CHR '';'' # r)"
  using assms by (induction p) auto

lemma match_here_cookie:
  assumes "p \<noteq> []" and "CHR 0x0A \<notin> set p" and "CHR 0x0D \<notin> set p"
    and "CHR '';'' \<notin> set r"
  shows "match_here re_cookie (p @ CHR '';'' # r) = Some (Some p)"
proof -
  let ?h = "p @ CHR '';'' # r"
  let ?n = "class_run Dot ?h"
  let ?f = "\<lambda>k. case match_here [Lit '';''] (drop k ?h) of
                   None \<Rightarrow> None
                 | Some g \<Rightarrow> Some (if True then Some (take k ?h) else g)"
  have n: "Suc (length p) \<le> ?n"
    using assms(2,3) by (rule class_run_Dot_append_ge)
  have at: "?f (length p) = Some (Some p)"
    by simp
  have above: "?f k = None" if "length p < k" for k
  proof -
    from that obtain j where k: "k = Suc (length p + j)"
      using less_iff_Suc_add by auto
    have "drop k ?h = drop j r" by (simp add: k)
    moreover have "\<not> prefix '';'' (drop j r)"
    proof
      assume "prefix '';'' (drop j r)"
      then obtain t where "drop j r = CHR '';'' # t" by (auto simp: prefix_def)
      then have "CHR '';'' \<in> set (drop j r)" by simp
      then have "CHR '';'' \<in> set r" by (rule in_set_dropD)
      with assms(4) show False by simp
    qed
    ultimately show ?thesis by simp
  qed
  have "first_some ?f (rev [1..<Suc ?n]) = Some (Some p)"
    using assms(1) n above at
    by (intro first_some_rev_upt [where m = "length p"]) (auto simp: Suc_le_eq)
  then show ?thesis
    by (simp add: re_cookie_def Let_def del: first_some.simps upt_Suc class_run.simps)
qed

lemma js_match_cookie:
  assumes "p \<noteq> []" and "CHR 0x0A \<notin> set p" and "CHR 0x0D \<notin> set p"
    and "CHR '';'' \<notin> set r"
  shows "js_match re_cookie (p @ CHR '';'' # r) = Some (Some p)"
proof -
  from assms(1) obtain c cs where "p @ CHR '';'' # r = c # cs"
    by (cases p) auto
  with match_here_cookie [OF assms] show ?thesis
    by (metis js_match.simps(2) option.simps(5))
qed

lemma match_here_LitD:
  "match_here (Lit l # r) s = Some g \<Longrightarrow> match_here r (drop (length l) s) = Some g"
  by (simp split: if_splits)

lemma match_here_captureD:
  assumes "match_here (Rep cls greedy True # r) s = Some g"
  shows "\<exists>k. 1 \<le> k \<and> k \<le> length s \<and> g = Some (take k s)"
proof -
  let ?n = "class_run cls s"
  let ?f = "\<lambda>k. case match_here r (drop k s) of
                   None \<Rightarrow> None
                 | Some g \<Rightarrow> Some (if True then Some (take k s) else g)"
  from assms have "first_some ?f (if greedy then rev [1..<Suc ?n] else [1..<Suc ?n]) = Some g"
    by (simp only: match_here.simps Let_def)
  then obtain k where k: "k \<in> set (if greedy then rev [1..<Suc ?n] else [1..<Suc ?n])"
    and fk: "?f k = Some g"
    using first_some_SomeD by fastforce
  from fk have "g = Some (take k s)"
    by (auto split: option.splits)
  moreover from k have "1 \<le> k" and "k \<le> length s"
    using class_run_le [of cls s] by (auto split: if_splits)
  ultimately show ?thesis by blast
qed

lemma match_here_index_nonempty:
  assumes "match_here re_index t = Some g"
  shows "\<exists>i. g = Some i \<and> i \<noteq> []"
proof -
  from assms have "match_here [Rep Any False True, Lit ''</index>''] (drop (length ''<index>'') t) = Some g"
    unfolding re_index_def by (rule match_here_LitD)
  from match_here_captureD [OF this] show ?thesis by auto
qed

lemma js_match_index_nonempty:
  assumes "js_match re_index body = Some (Some i)"
  shows "i \<noteq> []"
  using js_match_SomeD [OF assms] match_here_index_nonempty by fastforce

section \<open>getStatus: what a call does\<close>

text \<open>
  A request without a timeout of its own never reaches the transport: whatever
  \<open>getAuthenticationCookie\<close> reports, \<open>authenticatedRequest\<close> ends at once, and when a cookie
  is at hand it ends in the TypeError of line 219.
\<close>

lemma authenticatedRequest_no_timeout:
  assumes "req_timeout config = None"
  shows "authenticatedRequest (config, self, w) =
           Some (case getAuthenticationCookie self w of
                   (Thrown x, self1, w1) \<Rightarrow> (Thrown x, self1, w1)
                 | (Callback (Inl e), self1, w1) \<Rightarrow>
                     (Callback (Inl (new_Error
                        (''Failed to get authentication cookie: '' @ error_string e))), self1, w1)
                 | (Callback (Inr c), self1, w1) \<Rightarrow> (Thrown TypeError, self1, w1))"
  using assms
  by (subst authenticatedRequest.simps)
     (simp add: authenticatedRequest_body_def oneConcurrent_def with_cookie_def
        split: prod.splits outcome.splits sum.splits)

text \<open>
  So every run of \<open>getStatus\<close> is one of three: an exception from the login callback, an
  error handed to the caller's callback, or, once a cookie is at hand, the TypeError.
\<close>

lemma getStatus_run:
  "getStatus (self, w) =
     Some (case getAuthenticationCookie self w of
             (Thrown x, self1, w1) \<Rightarrow> (Thrown x, self1, w1)
           | (Callback (Inl e), self1, w1) \<Rightarrow>
               (Callback (Inl (new_Error (''Error getting raw status: '' @
                  error_string (new_Error
                    (''Failed to get authentication cookie: '' @ error_string e))))), self1, w1)
           | (Callback (Inr c), self1, w1) \<Rightarrow> (Thrown TypeError, self1, w1))"
proof -
  have "req_timeout (getStatus_request self) = None"
    by (simp add: getStatus_request_def)
  then show ?thesis
    by (simp add: getStatus_def authenticatedRequest_no_timeout getStatus_callback_def
          split: prod.splits outcome.splits sum.splits)
qed

lemma getAuthenticationCookie_holding:
  "getAuthenticationCookie (holding c self) w = (Callback (Inr c), holding c self, w)"
  by (simp add: getAuthenticationCookie_def holding_def)

lemma login_callback_client:
  "login_callback r self w = (out, self', w') \<Longrightarrow>
   getStatusIndex self' = getStatusIndex self \<and> lastStatus self' = lastStatus self"
  by (auto simp: login_callback_def Let_def
        split: reply.splits if_splits option.splits list.splits)

lemma getAuthenticationCookie_effects:
  assumes "getAuthenticationCookie self w = (out, self1, w1)"
  shows "getStatusIndex self1 = getStatusIndex self \<and> lastStatus self1 = lastStatus self \<and>
         (sent w1 = sent w \<or> sent w1 = sent w @ [login_request self])"
proof (cases "failSafe self \<or> cookie self \<noteq> None")
  case True
  with assms show ?thesis
    by (auto simp: getAuthenticationCookie_def split: if_splits)
next
  case False
  then have nf: "\<not> failSafe self" and nc: "cookie self = None" by simp_all
  from assms getAuthenticationCookie_login [OF nf nc, of w]
  have cb: "login_callback (shd (replies w)) self
              (w\<lparr>replies := stl (replies w), sent := sent w @ [login_request self]\<rparr>) =
            (out, self1, w1)"
    by simp
  from login_callback_sent [OF cb] login_callback_client [OF cb] show ?thesis
    by simp
qed

lemma match_ready_body:
  "js_match re_nochange ''<reply><index>7</index><system> <status>Ready</status> </system></reply>'' = None"
  "js_match re_index ''<reply><index>7</index><system> <status>Ready</status> </system></reply>'' = Some (Some ''7'')"
  "js_match re_status ''<reply><index>7</index><system> <status>Ready</status> </system></reply>'' = Some (Some ''Ready'')"
  by (simp_all add: re_nochange_def re_index_def re_status_def)




text \<open>
  C10. Every run of \<open>getStatus\<close> returns, leaves the cursor as it was and hands the
  transport nothing, or the login request alone, which has no \<open>curindex\<close> field: the
  status request is never sent, so no cursor is, neither the sentinel nor a value
  received earlier. In particular, on a fresh client whose status requests the panel
  would answer with \<open><index>7</index>\<close>, two calls in a row send the login request and
  nothing else.
\<close>

theorem getStatus_sends_no_cursor:
  "(\<exists>out self' w'.
      getStatus (self, w) = Some (out, self', w') \<and>
      getStatusIndex self' = getStatusIndex self \<and>
      (sent w' = sent w \<or> sent w' = sent w @ [login_request self])) \<and>
   map_of (req_form (login_request self)) ''curindex'' = None \<and>
   js_match re_index ''<reply><index>7</index><system> <status>Ready</status> </system></reply>'' =
     Some (Some ''7'') \<and>
   getStatus (fresh, world_of (login_ok ## sconst status_ready)) =
     Some (Thrown TypeError, holding ''PowerLink=abc'' fresh,
           (world_of (sconst status_ready))\<lparr>sent := [login_request fresh]\<rparr>) \<and>
   getStatus (holding ''PowerLink=abc'' fresh,
              (world_of (sconst status_ready))\<lparr>sent := [login_request fresh]\<rparr>) =
     Some (Thrown TypeError, holding ''PowerLink=abc'' fresh,
           (world_of (sconst status_ready))\<lparr>sent := [login_request fresh]\<rparr>) \<and>
   getStatusIndex (holding ''PowerLink=abc'' fresh) = None"
proof (intro conjI)
  obtain out self1 w1 where r: "getAuthenticationCookie self w = (out, self1, w1)"
    by (cases "getAuthenticationCookie self w") blast
  from getAuthenticationCookie_effects [OF r]
  have e: "getStatusIndex self1 = getStatusIndex self"
    "sent w1 = sent w \<or> sent w1 = sent w @ [login_request self]"
    by simp_all
  have "\<exists>out'. getStatus (self, w) = Some (out', self1, w1)"
    by (simp add: getStatus_run r split: outcome.splits sum.splits)
  with e show "\<exists>out self' w'.
      getStatus (self, w) = Some (out, self', w') \<and>
      getStatusIndex self' = getStatusIndex self \<and>
      (sent w' = sent w \<or> sent w' = sent w @ [login_request self])"
    by blast
  show "map_of (req_form (login_request self)) ''curindex'' = None"
    by (simp add: login_request_def)
  show "js_match re_index
          ''<reply><index>7</index><system> <status>Ready</status> </system></reply>'' =
        Some (Some ''7'')"
    by (rule match_ready_body)
  have h: "holding ''PowerLink=abc'' fresh = fresh\<lparr>cookie := Some ''PowerLink=abc''\<rparr>"
    by (simp add: holding_def fresh_def PowerLink2_def)
  show "getStatus (fresh, world_of (login_ok ## sconst status_ready)) =
     Some (Thrown TypeError, holding ''PowerLink=abc'' fresh,
           (world_of (sconst status_ready))\<lparr>sent := [login_request fresh]\<rparr>)"
    by (simp add: getStatus_run login_fresh h)
  show "getStatus (holding ''PowerLink=abc'' fresh,
              (world_of (sconst status_ready))\<lparr>sent := [login_request fresh]\<rparr>) =
     Some (Thrown TypeError, holding ''PowerLink=abc'' fresh,
           (world_of (sconst status_ready))\<lparr>sent := [login_request fresh]\<rparr>)"
    by (simp add: getStatus_run getAuthenticationCookie_holding)
  show "getStatusIndex (holding ''PowerLink=abc'' fresh) = None"
    by (simp add: holding_def fresh_fields)
qed

lemma match_bare_nochange:
  "js_match re_nochange ''<customStatus>[NOCNG]</customStatus>'' = Some None"
  by (simp add: re_nochange_def)

text \<open>
  C8. \<open>getStatus\<close> on a fresh client whose login the panel accepts ends with an uncaught
  TypeError (the read of \<open>self.config.timeout\<close>): its callback receives neither an error
  nor a status. And the callback of the status request, given a no-change body while
  nothing has been cached yet, passes on \<open>undefined\<close>, which is none of the five statuses.
\<close>

theorem getStatus_first_call_gives_no_status:
  "getStatus (fresh, world_of (login_ok ## sconst status_nochange)) =
     Some (Thrown TypeError, fresh\<lparr>cookie := Some ''PowerLink=abc''\<rparr>,
           (world_of (sconst status_nochange))\<lparr>sent := [login_request fresh]\<rparr>) \<and>
   getStatus_callback (Inr (Response None, ''<customStatus>[NOCNG]</customStatus>'')) fresh
       (world_of (sconst status_nochange)) =
     (Callback (Inr Undefined), fresh,
      log (''Status hasn'' @ [CHR 0x27] @ ''t changed'' @ [CHR 0xE2, CHR 0x80, CHR 0x93] @
           '' returning last status'') (world_of (sconst status_nochange))) \<and>
   Undefined \<notin> set STATUSES"
proof (intro conjI)
  have "req_timeout (getStatus_request fresh) = None"
    by (simp add: getStatus_request_def)
  then show "getStatus (fresh, world_of (login_ok ## sconst status_nochange)) =
     Some (Thrown TypeError, fresh\<lparr>cookie := Some ''PowerLink=abc''\<rparr>,
           (world_of (sconst status_nochange))\<lparr>sent := [login_request fresh]\<rparr>)"
    by (simp add: getStatus_def authenticatedRequest_without_timeout [OF login_fresh])
  show "getStatus_callback (Inr (Response None, ''<customStatus>[NOCNG]</customStatus>'')) fresh
       (world_of (sconst status_nochange)) =
     (Callback (Inr Undefined), fresh,
      log (''Status hasn'' @ [CHR 0x27] @ ''t changed'' @ [CHR 0xE2, CHR 0x80, CHR 0x93] @
           '' returning last status'') (world_of (sconst status_nochange)))"
    by (simp add: getStatus_callback_def match_bare_nochange fresh_fields del: js_match.simps)
  show "Undefined \<notin> set STATUSES"
    by (simp add: STATUSES_def)
qed

section \<open>The callback of the status request\<close>

text \<open>
  By \<open>getStatus_run\<close> the callback that \<open>getStatus\<close> passes to \<open>authenticatedRequest\<close> (lines 52
  to 93) is handed errors only. The lemmas of this section say what its other branch
  would do with a response.

  A body that matches the no-change pattern: the cached status is passed on and the client
  is left as it was.
\<close>

lemma getStatus_callback_no_change:
  assumes "js_match re_nochange body \<noteq> None"
  shows "\<exists>w'. getStatus_callback (Inr (resp, body)) self w =
                 (Callback (Inr (lastStatus self)), self, w') \<and>
              sent w' = sent w \<and> replies w' = replies w \<and> timers w' = timers w"
  using assms by (simp add: getStatus_callback_def Let_def log_def)

text \<open>The pattern asks for the enclosing tags: a bare \<open>[NOCNG]\<close> is not a no-change body.\<close>

lemma getStatus_callback_bare_marker:
  "getStatus_callback (Inr (Response None, ''<reply>[NOCNG]</reply>'')) fresh w =
     (Thrown TypeError, fresh, w)"
proof -
  have "js_match re_nochange ''<reply>[NOCNG]</reply>'' = None"
    "js_match re_index ''<reply>[NOCNG]</reply>'' = None"
    "js_match re_status ''<reply>[NOCNG]</reply>'' = None"
    by (simp_all add: re_nochange_def re_index_def re_status_def)
  then show ?thesis
    by (simp add: getStatus_callback_def fresh_fields del: js_match.simps)
qed

lemma status_table:
  "get_prop statusStringToStatus ''Ready'' = Str DISARMED"
  "get_prop statusStringToStatus ''NotReady'' = Str DISARMED"
  "get_prop statusStringToStatus ''Exit Delay'' = Str EXIT_DELAY"
  "get_prop statusStringToStatus ''HOME'' = Str ARMED_HOME"
  "get_prop statusStringToStatus ''AWAY'' = Str ARMED_AWAY"
  by (simp_all add: get_prop_def statusStringToStatus_def)

lemma status_table_miss:
  assumes "x \<notin> set [''Ready'', ''NotReady'', ''Exit Delay'', ''HOME'', ''AWAY'']"
    and "x \<notin> set object_prototype"
  shows "get_prop statusStringToStatus x = Undefined"
  using assms by (simp add: get_prop_def statusStringToStatus_def)

lemma lookup_or_unknown:
  assumes "x \<notin> set object_prototype"
  shows "(if truthy (get_prop statusStringToStatus x) then get_prop statusStringToStatus x
          else Str UNKNOWN) = Str (spec_status x)"
proof (cases "x \<in> set [''Ready'', ''NotReady'', ''Exit Delay'', ''HOME'', ''AWAY'']")
  case True
  then consider "x = ''Ready''" | "x = ''NotReady''" | "x = ''Exit Delay''" | "x = ''HOME''"
    | "x = ''AWAY''" by auto
  then show ?thesis
    by cases (simp_all add: status_table spec_status_def DISARMED_def EXIT_DELAY_def
         ARMED_HOME_def ARMED_AWAY_def)
next
  case False
  from status_table_miss [OF False assms] False show ?thesis
    by (simp add: spec_status_def)
qed

text \<open>
  For a parsed status string that is not the name of a member of \<open>Object.prototype\<close> the
  callback follows the table, and caches what it passes on.
\<close>

lemma getStatus_callback_parsed:
  assumes "js_match re_nochange body = None"
    and "js_match re_status body = Some (Some x)"
    and "x \<notin> set object_prototype"
  shows "\<exists>self1 w1.
           getStatus_callback (Inr (resp, body)) self w =
             (Callback (Inr (Str (spec_status x))), self1\<lparr>lastStatus := Str (spec_status x)\<rparr>, w1)"
proof -
  obtain self1 w2 where i:
    "(case js_match re_index body of
        Some (Some i) \<Rightarrow>
          (self\<lparr>getStatusIndex := Some i\<rparr>,
           debugLog self (''getStatusIndex: '' @ i)
             (if debug self then
                log (''body: '' @ body)
               (log ''response: [object Object]''
               (log ''Response from getRawState HTTP call:'' w))
              else w))
      | _ \<Rightarrow> (self, (if debug self then
                log (''body: '' @ body)
               (log ''response: [object Object]''
               (log ''Response from getRawState HTTP call:'' w))
              else w))) = (self1, w2)"
    by (cases "(case js_match re_index body of
        Some (Some i) \<Rightarrow>
          (self\<lparr>getStatusIndex := Some i\<rparr>,
           debugLog self (''getStatusIndex: '' @ i)
             (if debug self then
                log (''body: '' @ body)
               (log ''response: [object Object]''
               (log ''Response from getRawState HTTP call:'' w))
              else w))
      | _ \<Rightarrow> (self, (if debug self then
                log (''body: '' @ body)
               (log ''response: [object Object]''
               (log ''Response from getRawState HTTP call:'' w))
              else w)))") blast
  have "getStatus_callback (Inr (resp, body)) self w =
          (Callback (Inr (Str (spec_status x))), self1\<lparr>lastStatus := Str (spec_status x)\<rparr>, w2)"
    unfolding getStatus_callback_def Let_def
    using assms(1,2) i lookup_or_unknown [OF assms(3)]
    by (simp del: js_match.simps)
  then show ?thesis by blast
qed

lemma match_constructor_body:
  "js_match re_nochange ''<system> <status>constructor</status> </system>'' = None"
  "js_match re_index ''<system> <status>constructor</status> </system>'' = None"
  "js_match re_status ''<system> <status>constructor</status> </system>'' =
     Some (Some ''constructor'')"
  by (simp_all add: re_nochange_def re_index_def re_status_def)

text \<open>
  A status string that names a member of \<open>Object.prototype\<close>: the lookup of line 89 finds
  the inherited member, which is truthy, so the fallback to \<open>UNKNOWN\<close> does not apply.
\<close>

lemma getStatus_callback_inherited_member:
  "''constructor'' \<notin> fst ` set statusStringToStatus \<and>
   getStatus_callback (Inr (Response None, ''<system> <status>constructor</status> </system>''))
       fresh (world_of (sconst status_ready)) =
     (Callback (Inr (Inherited ''constructor'')),
      fresh\<lparr>lastStatus := Inherited ''constructor''\<rparr>,
      world_of (sconst status_ready)) \<and>
   Inherited ''constructor'' \<noteq> Str UNKNOWN \<and>
   Inherited ''constructor'' \<notin> set STATUSES"
  by (simp add: getStatus_callback_def match_constructor_body fresh_fields get_prop_def
        statusStringToStatus_def object_prototype_def STATUSES_def Let_def
        del: js_match.simps)

text \<open>The cursor: what the request carries, and when the callback stores a new one.\<close>

lemma curindex_sent:
  "map_of (req_form (getStatus_request self)) ''curindex'' =
     Some (Str (case getStatusIndex self of None \<Rightarrow> ''0'' | Some i \<Rightarrow> if i = [] then ''0'' else i))"
  by (simp add: getStatus_request_def split: option.splits)

lemma getStatus_callback_index:
  assumes "js_match re_nochange body = None" and "js_match re_index body = Some (Some i)"
  shows "getStatusIndex (fst (snd (getStatus_callback (Inr (resp, body)) self w))) = Some i"
  using assms
  by (simp add: getStatus_callback_def Let_def split: option.splits del: js_match.simps)

lemma getStatus_callback_no_index:
  assumes "js_match re_nochange body \<noteq> None \<or> js_match re_index body = None"
  shows "getStatusIndex (fst (snd (getStatus_callback (Inr (resp, body)) self w))) =
         getStatusIndex self"
  using assms
  by (auto simp add: getStatus_callback_def Let_def split: option.splits simp del: js_match.simps)

section \<open>Login: the session cookie\<close>

lemma match_cookie_two_attributes:
  "js_match re_cookie ''PowerLink=abc; path=/; HttpOnly'' = Some (Some ''PowerLink=abc; path=/'')"
  by (simp add: re_cookie_def)

lemma match_cookie_no_attributes: "js_match re_cookie ''PowerLink=abc'' = None"
  by (simp add: re_cookie_def)

text \<open>
  C5. The cookie pattern \<open>(.+);\<close> is greedy, so the capture runs to the last semicolon of
  the header value, not the first: a login answered with the header value
  \<open>PowerLink=abc; path=/; HttpOnly\<close> caches and returns \<open>PowerLink=abc; path=/\<close>, whereas
  the value up to the first semicolon is \<open>PowerLink=abc\<close>. And a header value without any
  semicolon, \<open>PowerLink=abc\<close>, does not match at all: line 188 throws a TypeError and no
  cookie is cached or returned.
\<close>

theorem cookie_cut_at_last_semicolon:
  "getAuthenticationCookie fresh (world_of (sconst login_two_attributes)) =
     (Callback (Inr ''PowerLink=abc; path=/''), fresh\<lparr>cookie := Some ''PowerLink=abc; path=/''\<rparr>,
      (world_of (sconst login_two_attributes))\<lparr>sent := [login_request fresh]\<rparr>) \<and>
   up_to_first_semicolon ''PowerLink=abc; path=/; HttpOnly'' = ''PowerLink=abc'' \<and>
   ''PowerLink=abc; path=/'' \<noteq> up_to_first_semicolon ''PowerLink=abc; path=/; HttpOnly'' \<and>
   getAuthenticationCookie fresh (world_of (sconst login_no_attributes)) =
     (Thrown TypeError, fresh,
      (world_of (sconst login_no_attributes))\<lparr>sent := [login_request fresh]\<rparr>) \<and>
   up_to_first_semicolon ''PowerLink=abc'' = ''PowerLink=abc''"
  by (simp add: getAuthenticationCookie_def fresh_fields request_def world_of_def
        login_two_attributes_def login_no_attributes_def login_callback_def debugLog_def
        match_cookie_two_attributes match_cookie_no_attributes
        login_ok_not_rejected up_to_first_semicolon_def del: js_match.simps)

text \<open>
  In general the cookie is the header value up to its last semicolon, provided at least
  one character and no line break come before it.
\<close>

lemma getAuthenticationCookie_greedy_cookie:
  assumes "\<not> failSafe self" and "cookie self = None"
    and "shd (replies w) = Answered resp body"
    and "js_match re_rejected body = None"
    and "set_cookie resp = Some ((p @ CHR '';'' # r) # hs)"
    and "p \<noteq> []" and "CHR 0x0A \<notin> set p" and "CHR 0x0D \<notin> set p"
    and "CHR '';'' \<notin> set r"
  shows "\<exists>w'. getAuthenticationCookie self w = (Callback (Inr p), self\<lparr>cookie := Some p\<rparr>, w')"
proof -
  have "getAuthenticationCookie self w =
          login_callback (Answered resp body) self
            (w\<lparr>replies := stl (replies w), sent := sent w @ [login_request self]\<rparr>)"
    using getAuthenticationCookie_login [OF assms(1,2), of w] assms(3) by simp
  also have "\<exists>w'. \<dots> = (Callback (Inr p), self\<lparr>cookie := Some p\<rparr>, w')"
    using assms(4,5) js_match_cookie [OF assms(6,7,8,9)]
    by (simp add: login_callback_def Let_def del: js_match.simps)
  finally show ?thesis .
qed

section \<open>setStatus: targets\<close>

lemma command_table:
  "get_prop stringMap DISARMED = Str ''Disarm''"
  "get_prop stringMap ARMED_HOME = Str ''ArmHome''"
  "get_prop stringMap ARMED_AWAY = Str ''ArmAway''"
  by (simp_all add: get_prop_def stringMap_def DISARMED_def ARMED_HOME_def ARMED_AWAY_def)

lemma command_request_form:
  "req_form (setStatus_request self (get_prop stringMap DISARMED)) = [(''set'', Str ''Disarm'')]"
  "req_form (setStatus_request self (get_prop stringMap ARMED_HOME)) = [(''set'', Str ''ArmHome'')]"
  "req_form (setStatus_request self (get_prop stringMap ARMED_AWAY)) = [(''set'', Str ''ArmAway'')]"
  by (simp_all add: command_table setStatus_request_def)

text \<open>
  A target that is neither a key of the command map nor the name of a member of
  \<open>Object.prototype\<close> is refused on the spot: the callback gets the error, the client and
  the world stay as they were.
\<close>

lemma setStatus_unmapped:
  assumes "status \<notin> set [DISARMED, ARMED_HOME, ARMED_AWAY]"
    and "status \<notin> set object_prototype"
  shows "setStatus status (self, w) =
           Some (Callback (Some (new_Error (''Cannot set status to: '' @ status))), self, w)"
  using assms by (simp add: setStatus_def get_prop_def stringMap_def)

lemma setStatus_read_only_targets:
  "setStatus EXIT_DELAY (self, w) =
     Some (Callback (Some (new_Error (''Cannot set status to: '' @ EXIT_DELAY))), self, w)"
  "setStatus UNKNOWN (self, w) =
     Some (Callback (Some (new_Error (''Cannot set status to: '' @ UNKNOWN))), self, w)"
  by (rule setStatus_unmapped;
      simp add: EXIT_DELAY_def UNKNOWN_def DISARMED_def ARMED_HOME_def ARMED_AWAY_def
        object_prototype_def)+

text \<open>
  C4. The target \<open>constructor\<close> is outside the status enumeration and is no key of the
  command map, but \<open>stringMap[status]\<close> finds the member inherited from
  \<open>Object.prototype\<close>, which is not \<open>undefined\<close>: \<open>setStatus\<close> goes on to
  \<open>authenticatedRequest\<close>, the login request is sent, and the call ends in the TypeError
  of line 219 without the callback having received an error. The same TypeError ends the
  call for the mapped target \<open>ARMED_HOME\<close>: the request with \<open>set = ArmHome\<close> is built but
  only the login request reaches the transport.
\<close>

theorem setStatus_inherited_target:
  "''constructor'' \<notin> fst ` set stringMap \<and>
   Str ''constructor'' \<notin> set STATUSES \<and>
   setStatus ''constructor'' (fresh, world_of (login_ok ## sconst status_ready)) =
     Some (Thrown TypeError, fresh\<lparr>cookie := Some ''PowerLink=abc''\<rparr>,
           (world_of (sconst status_ready))\<lparr>sent := [login_request fresh]\<rparr>) \<and>
   setStatus ARMED_HOME (fresh, world_of (login_ok ## sconst status_ready)) =
     Some (Thrown TypeError, fresh\<lparr>cookie := Some ''PowerLink=abc''\<rparr>,
           (world_of (sconst status_ready))\<lparr>sent := [login_request fresh]\<rparr>)"
proof (intro conjI)
  show "''constructor'' \<notin> fst ` set stringMap"
    by (simp add: stringMap_def DISARMED_def ARMED_HOME_def ARMED_AWAY_def)
  show "Str ''constructor'' \<notin> set STATUSES"
    by (simp add: STATUSES_def DISARMED_def ARMED_HOME_def ARMED_AWAY_def EXIT_DELAY_def
          UNKNOWN_def)
  have c: "get_prop stringMap ''constructor'' = Inherited ''constructor''"
    by (simp add: get_prop_def stringMap_def DISARMED_def ARMED_HOME_def ARMED_AWAY_def
          object_prototype_def)
  have t: "req_timeout (setStatus_request fresh v) = None" for v
    by (simp add: setStatus_request_def)
  show "setStatus ''constructor'' (fresh, world_of (login_ok ## sconst status_ready)) =
     Some (Thrown TypeError, fresh\<lparr>cookie := Some ''PowerLink=abc''\<rparr>,
           (world_of (sconst status_ready))\<lparr>sent := [login_request fresh]\<rparr>)"
    by (simp add: setStatus_def c t authenticatedRequest_without_timeout [OF login_fresh])
  show "setStatus ARMED_HOME (fresh, world_of (login_ok ## sconst status_ready)) =
     Some (Thrown TypeError, fresh\<lparr>cookie := Some ''PowerLink=abc''\<rparr>,
           (world_of (sconst status_ready))\<lparr>sent := [login_request fresh]\<rparr>)"
    by (simp add: setStatus_def command_table t
          authenticatedRequest_without_timeout [OF login_fresh])
qed

section \<open>authenticatedRequest: stale sessions\<close>


text \<open>
  The retry of lines 223 to 238 is reached only by a request that brings a timeout of its
  own, which no caller in index.js builds. For such a request the lemmas below trace what
  the lines do.
\<close>

lemma with_cookie_header:
  "map_of (the (req_headers (with_cookie c config))) ''Cookie'' = Some c"
  "req_url (with_cookie c config) = req_url config"
  "req_method (with_cookie c config) = req_method config"
  "req_form (with_cookie c config) = req_form config"
  "req_timeout (with_cookie c config) = req_timeout config"
  by (simp_all add: with_cookie_def update_conv')

lemma cookie_granted:
  assumes "getAuthenticationCookie self w = (Callback (Inr c), self1, w1)"
  shows "\<not> failSafe self1 \<and> login_request self1 = login_request self \<and> debug self1 = debug self"
  using assms
  by (auto simp: getAuthenticationCookie_def login_callback_def Let_def request_def
        login_request_def
        split: if_splits option.splits reply.splits list.splits prod.splits)

lemma authenticatedRequest_body_sends:
  assumes "getAuthenticationCookie self w = (Callback (Inr c), self1, w1)"
    and "req_timeout config = Some t" and "t \<noteq> 0"
  shows "sent (world_after (authenticatedRequest_body (config, self, w))) =
           sent w1 @ [with_cookie c config]"
  using assms
  by (cases "shd (replies w1)")
     (simp_all add: authenticatedRequest_body_def oneConcurrent_def request_def with_cookie_def
        world_after_def setTimeout_def debugLog_def log_def Let_def)

lemma with_cookie_twice: "with_cookie c2 (with_cookie c config) = with_cookie c2 config"
  by (simp add: with_cookie_def)

lemma match_cookie_again:
  "js_match re_cookie ''PowerLink=xyz; path=/'' = Some (Some ''PowerLink=xyz'')"
  by (simp add: re_cookie_def)

lemma match_relogin: "js_match re_relogin ''[RELOGIN]'' = Some None"
  by (simp add: re_relogin_def)

lemma stale_reply_reenters:
  assumes "getAuthenticationCookie self w = (Callback (Inr c), self1, w1)"
    and "req_timeout config = Some t" and "t \<noteq> 0"
    and "shd (replies w1) = Answered resp body"
    and "body = [] \<or> js_match re_relogin body \<noteq> None"
  shows "\<exists>w2.
           authenticatedRequest_body (config, self, w) =
             Inr (with_cookie c config, self1\<lparr>cookie := None\<rparr>, w2) \<and>
           authenticatedRequest (config, self, w) =
             authenticatedRequest (with_cookie c config, self1\<lparr>cookie := None\<rparr>, w2) \<and>
           sent w2 = sent w1 @ [with_cookie c config] \<and>
           replies w2 = stl (replies w1) \<and>
           timers w2 = timers w1 @ [3000] \<and>
           sent (snd (snd (getAuthenticationCookie (self1\<lparr>cookie := None\<rparr>) w2))) =
             sent w2 @ [login_request self] \<and>
           (\<forall>c2 self3 w3.
              getAuthenticationCookie (self1\<lparr>cookie := None\<rparr>) w2 = (Callback (Inr c2), self3, w3) \<longrightarrow>
              sent (world_after (authenticatedRequest_body
                      (with_cookie c config, self1\<lparr>cookie := None\<rparr>, w2))) =
                sent w2 @ [login_request self, with_cookie c2 config])"
proof -
  let ?s2 = "self1\<lparr>cookie := None\<rparr>"
  let ?w2 = "setTimeout (3 * 1000)
               (debugLog self1
                  (''Our cookie probably isn'' @ [CHR 0x27] @ ''t valid anymore - let'' @ [CHR 0x27] @
                   ''s get another one'')
                  (w1\<lparr>replies := stl (replies w1), sent := sent w1 @ [with_cookie c config]\<rparr>))"
  from cookie_granted [OF assms(1)]
  have nf: "\<not> failSafe ?s2" and lr: "login_request ?s2 = login_request self"
    by (simp_all add: login_request_def)
  have body: "authenticatedRequest_body (config, self, w) = Inr (with_cookie c config, ?s2, ?w2)"
    using assms
    by (simp add: authenticatedRequest_body_def oneConcurrent_def request_def with_cookie_def
          is_stale_def Let_def del: js_match.simps)
  then have rec: "authenticatedRequest (config, self, w) =
      authenticatedRequest (with_cookie c config, ?s2, ?w2)"
    by (subst authenticatedRequest.simps) simp
  have w2: "sent ?w2 = sent w1 @ [with_cookie c config]" "replies ?w2 = stl (replies w1)"
    "timers ?w2 = timers w1 @ [3000]"
    by (simp_all add: setTimeout_def debugLog_def log_def)
  obtain out self3 w3 where r: "getAuthenticationCookie ?s2 ?w2 = (out, self3, w3)"
    by (cases "getAuthenticationCookie ?s2 ?w2") blast
  have relogin: "sent w3 = sent ?w2 @ [login_request self]"
    using r getAuthenticationCookie_login [OF nf, of ?w2] lr
      login_callback_sent [of "shd (replies ?w2)" ?s2
        "?w2\<lparr>replies := stl (replies ?w2), sent := sent ?w2 @ [login_request ?s2]\<rparr>" out self3 w3]
    by simp
  have t1: "req_timeout (with_cookie c config) = Some t"
    using assms(2) by (simp add: with_cookie_def)
  have retried: "sent (world_after (authenticatedRequest_body (with_cookie c config, ?s2, ?w2))) =
                   sent ?w2 @ [login_request self, with_cookie c2 config]"
    if "getAuthenticationCookie ?s2 ?w2 = (Callback (Inr c2), self3', w3')" for c2 self3' w3'
    using authenticatedRequest_body_sends [OF that t1 assms(3)] that r relogin
    by (simp add: with_cookie_twice)
  from body rec w2 r relogin retried show ?thesis
    by (intro exI [of _ ?w2]) simp
qed

lemma match_ready_not_relogin:
  "js_match re_relogin ''<reply><index>7</index><system> <status>Ready</status> </system></reply>'' = None"
  by (simp add: re_relogin_def)

text \<open>
  A whole run: login, a stale answer, the timer, a second login, and the answer that
  reaches the callback. Four requests are sent, the last with the new cookie.
\<close>

lemma stale_session_run:
  "authenticatedRequest
     (status_request_with_timeout, fresh,
      world_of (login_ok ## stale_reply ## login_ok_again ## sconst status_ready)) =
   Some (Callback (Inr (Response None,
           ''<reply><index>7</index><system> <status>Ready</status> </system></reply>'')),
         fresh\<lparr>cookie := Some ''PowerLink=xyz''\<rparr>,
         \<lparr> replies = sconst status_ready,
           sent = [login_request fresh,
                   with_cookie ''PowerLink=abc'' status_request_with_timeout,
                   login_request fresh,
                   with_cookie ''PowerLink=xyz'' status_request_with_timeout],
           timers = [3000],
           logged = [] \<rparr>)"
proof -
  let ?cfg = status_request_with_timeout
  have first: "authenticatedRequest_body
      (?cfg, fresh, world_of (login_ok ## stale_reply ## login_ok_again ## sconst status_ready)) =
    Inr (with_cookie ''PowerLink=abc'' ?cfg, fresh\<lparr>cookie := None\<rparr>,
         \<lparr> replies = login_ok_again ## sconst status_ready,
           sent = [login_request fresh, with_cookie ''PowerLink=abc'' ?cfg],
           timers = [3000], logged = [] \<rparr>)"
    unfolding authenticatedRequest_body_def oneConcurrent_def prod.case login_fresh
    by (simp add: status_request_with_timeout_def getStatus_request_def request_def world_of_def
          stale_reply_def is_stale_def match_relogin with_cookie_def setTimeout_def
          debugLog_def fresh_fields Let_def
          del: js_match.simps)
  have second: "authenticatedRequest_body
      (with_cookie ''PowerLink=abc'' ?cfg, fresh\<lparr>cookie := None\<rparr>,
       \<lparr> replies = login_ok_again ## sconst status_ready,
         sent = [login_request fresh, with_cookie ''PowerLink=abc'' ?cfg],
         timers = [3000], logged = [] \<rparr>) =
    Inl (Callback (Inr (Response None,
           ''<reply><index>7</index><system> <status>Ready</status> </system></reply>'')),
         fresh\<lparr>cookie := Some ''PowerLink=xyz''\<rparr>,
         \<lparr> replies = sconst status_ready,
           sent = [login_request fresh, with_cookie ''PowerLink=abc'' ?cfg,
                   login_request fresh, with_cookie ''PowerLink=xyz'' ?cfg],
           timers = [3000], logged = [] \<rparr>)"
    by (simp add: authenticatedRequest_body_def oneConcurrent_def getAuthenticationCookie_def
          login_callback_def login_ok_again_def match_cookie_again login_ok_not_rejected
          status_request_with_timeout_def getStatus_request_def request_def
          status_ready_def is_stale_def match_ready_not_relogin with_cookie_def
          debugLog_def fresh_fields Let_def login_request_def
          del: js_match.simps)
  show ?thesis
    by (subst authenticatedRequest.simps, simp only: first sum.case,
        subst authenticatedRequest.simps, simp only: second sum.case)
qed

end
